theory Spec2Isabelle
  imports Complex_Main
begin

section \<open>Python values and strings\<close>

text \<open>
  The collectors and the job manager pass their results around as Python dictionaries.
  A dictionary is modelled as an association list in insertion order, read with
  \<open>map_of\<close>; its values are Python values. A finite Python float is idealised as a
  real (arithmetic without rounding error; the range of a float is kept, see
  \<open>float_overflow\<close> below) and \<open>PInf\<close> is the float infinity; Python's unbounded
  integers are \<open>int\<close>, and a Python string is a \<open>string\<close> whose characters are
  code points below 256.
\<close>

datatype pyval =
    PNone
  | PBool bool
  | PInt int
  | PFloat real
  | PInf
  | PStr string
  | PList "pyval list"
  | PDict "(string \<times> pyval) list"

type_synonym pydict = "(string \<times> pyval) list"

text \<open>Truth value testing, as \<open>if v:\<close> does it.\<close>

fun truthy :: "pyval \<Rightarrow> bool" where
  "truthy PNone = False"
| "truthy (PBool b) = b"
| "truthy (PInt i) = (i \<noteq> 0)"
| "truthy (PFloat x) = (x \<noteq> 0)"
| "truthy PInf = True"
| "truthy (PStr s) = (s \<noteq> [])"
| "truthy (PList xs) = (xs \<noteq> [])"
| "truthy (PDict kvs) = (kvs \<noteq> [])"


definition is_digit :: "char \<Rightarrow> bool" where
  "is_digit c = (c \<in> set ''0123456789'')"

text \<open>\<open>str.isspace\<close> on the code points below 256.\<close>

definition is_space :: "char \<Rightarrow> bool" where
  "is_space c = (of_char c \<in> set [9, 10, 11, 12, 13, 28, 29, 30, 31, 32, 133, 160 :: nat])"

definition strip :: "string \<Rightarrow> string" where
  "strip s = rev (dropWhile is_space (rev (dropWhile is_space s)))"

text \<open>
  \<open>str.lower\<close> on ASCII letters. The code only searches the lowered line for ASCII
  needles, which no other character below 256 lowers into.
\<close>

definition lower_char :: "char \<Rightarrow> char" where
  "lower_char c = (if 65 \<le> (of_char c :: nat) \<and> (of_char c :: nat) \<le> 90
                   then char_of (of_char c + (32::nat)) else c)"

definition lower :: "string \<Rightarrow> string" where
  "lower s = map lower_char s"

fun startswith :: "string \<Rightarrow> string \<Rightarrow> bool" where
  "startswith s [] = True"
| "startswith [] (p # ps) = False"
| "startswith (c # cs) (p # ps) = (c = p \<and> startswith cs ps)"

definition newline :: char where
  "newline = char_of (10::nat)"

text \<open>\<open>needle in s\<close>.\<close>

fun contains :: "string \<Rightarrow> string \<Rightarrow> bool" where
  "contains needle [] = (needle = [])"
| "contains needle (c # cs) = (startswith (c # cs) needle \<or> contains needle cs)"

text \<open>\<open>s.split('\n')\<close>: always at least one piece.\<close>

fun split_nl :: "string \<Rightarrow> string list" where
  "split_nl [] = [[]]"
| "split_nl (c # cs) =
     (if c = newline then [] # split_nl cs
      else (case split_nl cs of [] \<Rightarrow> [[c]] | l # ls \<Rightarrow> (c # l) # ls))"

text \<open>
  \<open>int(s)\<close> on a run of decimal digits: its value, and the conversion itself, which
  raises \<open>ValueError\<close> on more digits than the interpreter's limit for it, 4300 unless
  configured otherwise.
\<close>

definition int_of_digits :: "string \<Rightarrow> int" where
  "int_of_digits ds = foldl (\<lambda>a c. 10 * a + (int (of_char c) - 48)) 0 ds"

definition max_str_digits :: nat where "max_str_digits = 4300"

definition py_int :: "string \<Rightarrow> int option" where
  "py_int ds = (if max_str_digits < length ds then None else Some (int_of_digits ds))"

subsection \<open>The three regular expressions, as matchers\<close>

text \<open>
  \<open>expect lit s\<close> consumes the literal \<open>lit\<close>; \<open>span1 P s\<close> consumes the longest
  non-empty run of characters satisfying \<open>P\<close>, which is what a greedy \<open>+\<close> matches when
  the pattern goes on with a character outside the class (as it does at every \<open>+\<close> of
  the patterns below); \<open>re_search\<close> is \<open>re.search\<close>: the match at the leftmost position
  that has one.
\<close>

definition expect :: "string \<Rightarrow> string \<Rightarrow> string option" where
  "expect lit s = (if startswith s lit then Some (drop (length lit) s) else None)"

definition span1 :: "(char \<Rightarrow> bool) \<Rightarrow> string \<Rightarrow> (string \<times> string) option" where
  "span1 P s = (if takeWhile P s = [] then None else Some (takeWhile P s, dropWhile P s))"

fun re_search :: "(string \<Rightarrow> 'a option) \<Rightarrow> string \<Rightarrow> 'a option" where
  "re_search m [] = m []"
| "re_search m (c # cs) = (case m (c # cs) of Some r \<Rightarrow> Some r | None \<Rightarrow> re_search m cs)"

text \<open>\<^verbatim>\<open>Reply from [\d.]+: bytes=\d+ time=(\d+)ms(?: TTL=(\d+))?\<close>, groups 1 and 2.\<close>

definition match_reply :: "string \<Rightarrow> (string \<times> string option) option" where
  "match_reply s =
     (case expect ''Reply from '' s of None \<Rightarrow> None | Some s1 \<Rightarrow>
      case span1 (\<lambda>c. is_digit c \<or> c = CHR ''.'') s1 of None \<Rightarrow> None | Some (addr, s2) \<Rightarrow>
      case expect '': bytes='' s2 of None \<Rightarrow> None | Some s3 \<Rightarrow>
      case span1 is_digit s3 of None \<Rightarrow> None | Some (bytes, s4) \<Rightarrow>
      case expect '' time='' s4 of None \<Rightarrow> None | Some s5 \<Rightarrow>
      case span1 is_digit s5 of None \<Rightarrow> None | Some (t, s6) \<Rightarrow>
      case expect ''ms'' s6 of None \<Rightarrow> None | Some s7 \<Rightarrow>
        Some (t, case expect '' TTL='' s7 of None \<Rightarrow> None
                 | Some s8 \<Rightarrow> map_option fst (span1 is_digit s8)))"

text \<open>\<^verbatim>\<open>\((\d+)%.*loss\)\<close>, group 1; the dot does not match a newline.\<close>

definition match_loss :: "string \<Rightarrow> string option" where
  "match_loss s =
     (case expect ''('' s of None \<Rightarrow> None | Some s1 \<Rightarrow>
      case span1 is_digit s1 of None \<Rightarrow> None | Some (d, s2) \<Rightarrow>
      case expect ''%'' s2 of None \<Rightarrow> None | Some s3 \<Rightarrow>
        if contains ''loss)'' (takeWhile (\<lambda>c. c \<noteq> newline) s3) then Some d else None)"

section \<open>PingCollector\<close>

record reply_info =
  time_ms :: int
  ttl :: "int option"

text \<open>
  \<open>_parse_reply_line\<close> and \<open>_parse_packet_loss\<close>. An exception of \<open>int\<close> is caught
  by the \<open>except\<close> clause of each, which returns \<open>None\<close> and \<open>0\<close>.
\<close>

definition parse_reply_line :: "string \<Rightarrow> reply_info option" where
  "parse_reply_line line =
     (case re_search match_reply line of
        Some (t, g2) \<Rightarrow>
          (case py_int t of
             None \<Rightarrow> None
           | Some time \<Rightarrow>
               (case g2 of
                  None \<Rightarrow> Some \<lparr>time_ms = time, ttl = None\<rparr>
                | Some g \<Rightarrow>
                    (case py_int g of
                       None \<Rightarrow> None
                     | Some v \<Rightarrow> Some \<lparr>time_ms = time, ttl = Some v\<rparr>)))
      | None \<Rightarrow> None)"

definition parse_packet_loss :: "string \<Rightarrow> int" where
  "parse_packet_loss line =
     (case re_search match_loss line of
        Some d \<Rightarrow> (case py_int d of None \<Rightarrow> 0 | Some v \<Rightarrow> v)
      | None \<Rightarrow> 0)"

text \<open>
  \<open>round(x, 2)\<close>: the nearest multiple of 0.01, a tie going to the even one.
\<close>

definition round2 :: "real \<Rightarrow> real" where
  "round2 x =
     (let y = x * 100; f = \<lfloor>y\<rfloor>; d = y - of_int f
      in of_int (if d < 1/2 then f else if 1/2 < d then f + 1
                 else if even f then f else f + 1) / 100)"

subsection \<open>The range of a float\<close>

text \<open>
  A result whose magnitude reaches \<open>float_overflow\<close>, half a unit in the last place
  above the largest float, does not fit a float. Converting an integer and dividing two
  integers then raise \<open>OverflowError\<close>, and so does squaring a finite float; adding or
  subtracting floats gives an infinity instead, without raising.
\<close>

definition float_overflow :: real where
  "float_overflow = 2 ^ 1024 - 2 ^ 970"

datatype pyfloat = Fin real | PosInf

text \<open>\<open>a / n\<close> for an integer \<open>a\<close> and a length \<open>n\<close>; \<open>Inl\<close> is the exception's text.\<close>

definition true_divide :: "int \<Rightarrow> nat \<Rightarrow> string + real" where
  "true_divide a n =
     (if n = 0 then Inl ''division by zero''
      else if float_overflow \<le> \<bar>real_of_int a / real n\<bar>
      then Inl ''integer division result too large for a float''
      else Inr (real_of_int a / real n))"

text \<open>
  \<open>(time - avg) ** 2\<close> for an integer \<open>time\<close>: the integer is converted, the
  difference is a float or an infinity, and the square of a finite difference raises when
  it does not fit.
\<close>

definition squared_deviation :: "int \<Rightarrow> real \<Rightarrow> string + pyfloat" where
  "squared_deviation time avg =
     (if float_overflow \<le> \<bar>real_of_int time\<bar> then Inl ''int too large to convert to float''
      else if float_overflow \<le> \<bar>real_of_int time - avg\<bar> then Inr PosInf
      else if float_overflow \<le> (real_of_int time - avg)\<^sup>2
      then Inl ''(34, Numerical result out of range)''
      else Inr (Fin ((real_of_int time - avg)\<^sup>2)))"

text \<open>Adding two floats that are not negative, as the squares are.\<close>

fun float_add :: "pyfloat \<Rightarrow> pyfloat \<Rightarrow> pyfloat" where
  "float_add (Fin a) (Fin b) = (if float_overflow \<le> a + b then PosInf else Fin (a + b))"
| "float_add PosInf y = PosInf"
| "float_add x PosInf = PosInf"

text \<open>
  \<open>sum((time - avg) ** 2 for time in response_times)\<close>, with the sum so far: the
  first term that raises ends it.
\<close>

fun sum_squares :: "int list \<Rightarrow> real \<Rightarrow> pyfloat \<Rightarrow> string + pyfloat" where
  "sum_squares [] avg acc = Inr acc"
| "sum_squares (time # rest) avg acc =
     (case squared_deviation time avg of
        Inl e \<Rightarrow> Inl e
      | Inr v \<Rightarrow> sum_squares rest avg (float_add acc v))"

text \<open>
  \<open>_calculate_jitter\<close>, on the integer times that \<open>_parse_reply_line\<close> produces, which
  are the only values it is called with. Its \<open>except\<close> clause turns every exception of
  the \<open>try\<close> block into \<open>None\<close>; an infinite sum stays infinite through the division,
  the square root and the rounding.
\<close>

definition calculate_jitter :: "int list \<Rightarrow> pyfloat option" where
  "calculate_jitter response_times =
     (if length response_times < 2 then None
      else
        (case true_divide (sum_list response_times) (length response_times) of
           Inl e \<Rightarrow> None
         | Inr avg \<Rightarrow>
             (case sum_squares response_times avg (Fin 0) of
                Inl e \<Rightarrow> None
              | Inr PosInf \<Rightarrow> Some PosInf
              | Inr (Fin squares) \<Rightarrow>
                  (let variance = squares / real (length response_times);
                       jitter = sqrt variance
                   in Some (Fin (round2 jitter))))))"

text \<open>The loop of \<open>_parse_ping_output\<close> over the lines, with its three locals.\<close>

record parse_state =
  reply_times :: "int list"
  packet_loss :: int
  ttl_seen :: "int option"

definition parse_line :: "string \<Rightarrow> parse_state \<Rightarrow> parse_state" where
  "parse_line line st =
     (let st1 =
        (if startswith (strip line) ''Reply from'' then
           (case parse_reply_line line of
              None \<Rightarrow> st
            | Some info \<Rightarrow>
                (let st' = st\<lparr>reply_times := reply_times st @ [time_ms info]\<rparr>
                 in (case ttl info of
                       Some v \<Rightarrow> if v \<noteq> 0 then st'\<lparr>ttl_seen := Some v\<rparr> else st'
                     | None \<Rightarrow> st')))
         else st)
      in if contains ''packet loss'' (lower line) \<or> contains ''lost'' (lower line)
         then st1\<lparr>packet_loss := parse_packet_loss line\<rparr>
         else st1)"

definition parse_lines :: "string list \<Rightarrow> parse_state" where
  "parse_lines lines =
     foldl (\<lambda>st line. parse_line line st) \<lparr>reply_times = [], packet_loss = 0, ttl_seen = None\<rparr> lines"

fun py_min :: "int list \<Rightarrow> pyval" where
  "py_min [] = PNone"
| "py_min (x # xs) = PInt (fold min xs x)"

fun py_max :: "int list \<Rightarrow> pyval" where
  "py_max [] = PNone"
| "py_max (x # xs) = PInt (fold max xs x)"

definition jitter_value :: "pyfloat option \<Rightarrow> pyval" where
  "jitter_value v = (case v of None \<Rightarrow> PNone | Some (Fin x) \<Rightarrow> PFloat x | Some PosInf \<Rightarrow> PInf)"

definition opt_int :: "int option \<Rightarrow> pyval" where
  "opt_int v = (case v of None \<Rightarrow> PNone | Some x \<Rightarrow> PInt x)"

text \<open>
  The dictionary the \<open>try\<close> block of \<open>_parse_ping_output\<close> returns when nothing in it
  raises: a successfully parsed result. The \<open>timestamp\<close> entry is the clock reading
  \<open>ts\<close>. The statistics line is parsed by the source into a local that the result never
  uses, so it is left out.
\<close>

definition parse_ping_output :: "string \<Rightarrow> string \<Rightarrow> string \<Rightarrow> pydict" where
  "parse_ping_output output host ts =
     (let st = parse_lines (split_nl (strip output));
          rts = reply_times st;
          avg_time = (if rts \<noteq> [] then PFloat (real_of_int (sum_list rts) / real (length rts))
                      else PNone);
          min_time = py_min rts;
          max_time = py_max rts;
          jitter = (if rts \<noteq> [] then jitter_value (calculate_jitter rts) else PNone);
          success = (length rts > 0)
      in [(''success'', PBool success),
          (''host'', PStr host),
          (''timestamp'', PStr ts),
          (''packets_sent'', PInt (int (length rts) + packet_loss st)),
          (''packets_received'', PInt (int (length rts))),
          (''packet_loss_percent'', PInt (packet_loss st)),
          (''response_times'', PList (map PInt rts)),
          (''min_response_time_ms'', min_time),
          (''max_response_time_ms'', max_time),
          (''avg_response_time_ms'', avg_time),
          (''jitter_ms'', jitter),
          (''ttl'', opt_int (ttl_seen st)),
          (''raw_output'', PStr output),
          (''additional_data'', PDict [(''jitter'', jitter), (''ttl'', opt_int (ttl_seen st))])])"















section \<open>The persistent store\<close>

text \<open>
  Times are seconds since the epoch. The store holds the three tables the engine
  writes, each a list of rows in the order of their ids. A job row and a job-run row have
  the columns of \<open>Job\<close> and \<open>JobRun\<close> that the engine touches; the \<open>Job\<close> class has no
  \<open>config\<close> column. A metric row is the dictionary of keyword arguments its
  \<open>MetricRecord\<close> was built from.
\<close>

type_synonym timestamp = real

record destination_config =
  dc_host :: string
  dc_display_name :: string

record job_config =
  cfg_name :: string
  cfg_interval :: int
  cfg_enabled :: bool
  cfg_metrics :: "string list"
  cfg_destinations :: "destination_config list"

record job_row =
  job_id :: nat
  job_enabled :: bool
  job_last_run :: "timestamp option"
  job_next_run :: "timestamp option"

record job_run_row =
  run_id :: nat
  run_job_id :: nat
  run_start_time :: timestamp
  run_end_time :: "timestamp option"
  run_status :: string
  total_destinations :: int
  successful_destinations :: int
  failed_destinations :: int
  error_message :: "string option"

text \<open>
  The services open every session with \<open>self.db.async_session()\<close>. The store is an
  argument of their constructors, and whether it can open a session is its flag
  \<open>available\<close>: when the flag is false every \<open>async with\<close> block raises, and the
  \<open>except\<close> clause around it runs. The \<open>Database\<close> class of the sources defines
  \<open>async_session_maker\<close> and no \<open>async_session\<close>, so a store of that class is one
  whose flag is false.
\<close>

record database =
  available :: bool
  jobs :: "job_row list"
  job_runs :: "job_run_row list"
  metrics :: "pydict list"

subsection \<open>Dates\<close>

text \<open>
  A \<open>datetime\<close> lies between the years 1 and 9999, and a \<open>timedelta\<close> within a
  thousand million days. \<open>now + timedelta(seconds=n)\<close> raises \<open>OverflowError\<close> when the
  \<open>timedelta\<close> or the sum falls outside.
\<close>

definition datetime_min :: real where "datetime_min = - 62135596800"
definition datetime_end :: real where "datetime_end = 253402300800"

definition add_seconds :: "timestamp \<Rightarrow> int \<Rightarrow> string + timestamp" where
  "add_seconds now n =
     (if n < - 86399999913600 \<or> 86399999999999 < n then Inl ''timedelta out of range''
      else if now + of_int n < datetime_min \<or> datetime_end \<le> now + of_int n
      then Inl ''date value out of range''
      else Inr (now + of_int n))"

section \<open>JobManager\<close>

record job_execution_result =
  res_job_id :: nat
  res_success :: bool
  res_metrics_collected :: int
  res_destinations_successful :: int
  res_destinations_failed :: int
  res_error_message :: "string option"
  res_end_time :: timestamp

text \<open>
  An execution unit is the \<open>asyncio.Task\<close> running \<open>_execute_job\<close>. While it is in the
  running-job map it has either not taken its first step (\<open>Created\<close>) or is suspended at
  an \<open>await\<close> inside \<open>_execute_job\<close> (\<open>Suspended\<close>); a unit that has finished has
  left the map through the \<open>finally\<close> clause. A dispatch unit is the task running
  \<open>_delayed_job_execution\<close>, with the delay it was created with.
\<close>

datatype task_phase = Created | Suspended

record execution_unit =
  unit_phase :: task_phase
  unit_run_id :: nat

record dispatch_unit =
  dispatch_delay :: real
  dispatch_done :: bool

record engine =
  db :: database
  running_jobs :: "nat \<rightharpoonup> execution_unit"
  scheduled_jobs :: "nat \<rightharpoonup> dispatch_unit"

text \<open>
  \<open>_create_job_run\<close>: the new row gets the next id of the auto-increment column; the
  result is \<open>None\<close> when the session raises.
\<close>

definition new_job_run :: "nat \<Rightarrow> int \<Rightarrow> timestamp \<Rightarrow> database \<Rightarrow> job_run_row" where
  "new_job_run jid n_destinations now d =
     \<lparr>run_id = Suc (length (job_runs d)), run_job_id = jid,
      run_start_time = now, run_end_time = None, run_status = ''running'',
      total_destinations = n_destinations, successful_destinations = 0,
      failed_destinations = 0, error_message = None\<rparr>"

definition create_job_run :: "nat \<Rightarrow> int \<Rightarrow> timestamp \<Rightarrow> database \<Rightarrow> nat option \<times> database" where
  "create_job_run jid n_destinations now d =
     (if available d then
        (let run = new_job_run jid n_destinations now d
         in (Some (run_id run), d\<lparr>job_runs := job_runs d @ [run]\<rparr>))
      else (None, d))"

definition complete_job_run :: "nat \<Rightarrow> job_execution_result \<Rightarrow> database \<Rightarrow> database" where
  "complete_job_run rid result d =
     (if available d then
        d\<lparr>job_runs :=
            map (\<lambda>r. if run_id r = rid
                      then r\<lparr>run_end_time := Some (res_end_time result),
                             run_status := (if res_success result then ''completed'' else ''failed''),
                             successful_destinations := res_destinations_successful result,
                             failed_destinations := res_destinations_failed result,
                             error_message := res_error_message result\<rparr>
                      else r) (job_runs d)\<rparr>
      else d)"

definition update_job_status :: "nat \<Rightarrow> bool \<Rightarrow> database \<Rightarrow> database" where
  "update_job_status jid enabled d =
     (if available d then
        d\<lparr>jobs := map (\<lambda>j. if job_id j = jid then j\<lparr>job_enabled := enabled\<rparr> else j) (jobs d)\<rparr>
      else d)"

text \<open>
  \<open>_update_job_after_run\<close>. The whole body is inside the \<open>try\<close> block: when adding the
  interval raises, or when the session does, nothing is written.
\<close>

definition update_job_after_run ::
  "nat \<Rightarrow> int \<Rightarrow> job_execution_result \<Rightarrow> timestamp \<Rightarrow> database \<Rightarrow> database" where
  "update_job_after_run jid interval result now d =
     (case (if res_success result then add_seconds now interval else Inr now) of
        Inl e \<Rightarrow> d
      | Inr next_run \<Rightarrow>
          if available d then
            d\<lparr>jobs := map (\<lambda>j. if job_id j = jid
                                 then j\<lparr>job_last_run := Some (res_end_time result),
                                        job_next_run := Some next_run,
                                        job_enabled := res_success result\<rparr>
                                 else j) (jobs d)\<rparr>
          else d)"

text \<open>
  \<open>start_job\<close>. A run id of 0 is falsy, so \<open>if not run_id\<close> refuses it as it refuses
  \<open>None\<close>.
\<close>

definition start_job :: "nat \<Rightarrow> job_config \<Rightarrow> timestamp \<Rightarrow> engine \<Rightarrow> bool \<times> engine" where
  "start_job jid job_config now s =
     (if running_jobs s jid \<noteq> None then (False, s)
      else
        (case create_job_run jid (int (length (cfg_destinations job_config))) now (db s) of
           (None, d) \<Rightarrow> (False, s\<lparr>db := d\<rparr>)
         | (Some rid, d) \<Rightarrow>
             if rid = 0 then (False, s\<lparr>db := d\<rparr>)
             else (True, s\<lparr>db := d,
                           running_jobs := (running_jobs s)(jid \<mapsto>
                             \<lparr>unit_phase = Created, unit_run_id = rid\<rparr>)\<rparr>)))"

text \<open>
  \<open>task.cancel()\<close> followed by \<open>await task\<close>. A unit cancelled before its first step
  never enters the body of \<open>_execute_job\<close>, so nothing of it runs. A unit suspended at an
  \<open>await\<close> has \<open>CancelledError\<close> raised there; no \<open>except Exception\<close> clause catches
  it, and the \<open>finally\<close> clause of \<open>_execute_job\<close> takes the job out of the running-job
  map before the awaiting caller goes on.
\<close>

definition cancel_and_await :: "nat \<Rightarrow> execution_unit \<Rightarrow> engine \<Rightarrow> engine" where
  "cancel_and_await jid task s =
     (case unit_phase task of
        Created \<Rightarrow> s
      | Suspended \<Rightarrow> s\<lparr>running_jobs := (running_jobs s)(jid := None)\<rparr>)"

text \<open>
  \<open>stop_job\<close>. \<open>del self._running_jobs[job_id]\<close> raises \<open>KeyError\<close> when the key is
  gone; the \<open>except Exception\<close> clause then returns \<open>False\<close>, before
  \<open>_update_job_status\<close> is reached.
\<close>

definition stop_job :: "nat \<Rightarrow> engine \<Rightarrow> bool \<times> engine" where
  "stop_job jid s =
     (case running_jobs s jid of
        None \<Rightarrow> (False, s)
      | Some task \<Rightarrow>
          (let s1 = cancel_and_await jid task s
           in case running_jobs s1 jid of
                None \<Rightarrow> (False, s1)
              | Some t \<Rightarrow>
                  (True, s1\<lparr>running_jobs := (running_jobs s1)(jid := None),
                             db := update_job_status jid False (db s1)\<rparr>)))"

subsection \<open>Executing a job\<close>

text \<open>
  The destination manager is an argument of the job manager's constructor, and its
  \<open>get_destination_by_host\<close> is a parameter: a lookup raises, finds nothing, or finds a
  destination with an id. The \<open>DestinationManager\<close> class of the sources defines no
  such method, so with a manager of that class every lookup raises.
\<close>

datatype lookup_outcome = LookupRaised string | NotFound | Found nat

record environment =
  get_destination_by_host :: "string \<Rightarrow> lookup_outcome"

text \<open>
  The collector is the \<open>PingCollector\<close> the job manager creates for itself. That class
  defines no \<open>ping_host\<close>: \<open>self.ping_collector.ping_host\<close> raises \<open>AttributeError\<close>,
  so that a probe never returns a result.
\<close>

datatype probe_outcome = ProbeRaised string | ProbeReturned pydict

definition quoted :: "string \<Rightarrow> string" where
  "quoted k = [char_of (39::nat)] @ k @ [char_of (39::nat)]"

definition ping_host :: "string \<Rightarrow> probe_outcome" where
  "ping_host h =
     ProbeRaised (quoted ''PingCollector'' @ '' object has no attribute '' @ quoted ''ping_host'')"

text \<open>
  \<open>MetricRecord(**kwargs)\<close> is the constructor every declarative class gets: it raises
  \<open>TypeError\<close> at the first keyword that is not an attribute of the class. The
  attributes are the columns declared in \<open>database.py\<close> and what the declarative base
  provides, \<open>metadata\<close> among it; \<open>value\<close> and \<open>unit\<close> are not among them.
\<close>

definition metric_record_attributes :: "string list" where
  "metric_record_attributes =
     [''id'', ''timestamp'', ''job_id'', ''destination_id'', ''host'', ''metric_type'',
      ''status'', ''response_time_ms'', ''additional_data'', ''created_at'',
      ''metadata'', ''registry'', ''__tablename__'', ''__table_args__'', ''__table__'',
      ''__mapper__'']"

definition new_metric_record :: "pydict \<Rightarrow> string + pydict" where
  "new_metric_record kwargs =
     (case filter (\<lambda>kv. fst kv \<notin> set metric_record_attributes) kwargs of
        [] \<Rightarrow> Inr kwargs
      | kv # rest \<Rightarrow>
          Inl (quoted (fst kv) @ '' is an invalid keyword argument for MetricRecord''))"

text \<open>\<open>d.get(k, default)\<close>, and \<open>str(KeyError(k))\<close>, which is \<open>k\<close> in single quotes.\<close>

definition dict_get :: "pydict \<Rightarrow> string \<Rightarrow> pyval \<Rightarrow> pyval" where
  "dict_get d k dflt = (case map_of d k of None \<Rightarrow> dflt | Some v \<Rightarrow> v)"

definition key_error :: "string \<Rightarrow> string" where
  "key_error k = quoted k"

text \<open>
  The keyword arguments of the first \<open>MetricRecord(...)\<close> of \<open>_collect_ping_metric\<close>:
  subscripting the probe's result raises \<open>KeyError\<close> for a missing key, \<open>latency_ms\<close>
  being read first.
\<close>

definition success_kwargs :: "nat \<Rightarrow> nat \<Rightarrow> nat \<Rightarrow> timestamp \<Rightarrow> pydict \<Rightarrow> string + pydict" where
  "success_kwargs jid destination_id rid now ping_result =
     (case map_of ping_result ''latency_ms'' of
        None \<Rightarrow> Inl (key_error ''latency_ms'')
      | Some latency \<Rightarrow>
          (case map_of ping_result ''success'' of
             None \<Rightarrow> Inl (key_error ''success'')
           | Some ok \<Rightarrow>
               Inr [(''job_id'', PInt (int jid)),
                    (''destination_id'', PInt (int destination_id)),
                    (''metric_type'', PStr ''ping''),
                    (''value'', latency),
                    (''unit'', PStr ''ms''),
                    (''status'', PStr (if truthy ok then ''success'' else ''failed'')),
                    (''timestamp'', PFloat now),
                    (''metadata'', PDict
                       [(''run_id'', PInt (int rid)),
                        (''packet_loss'', dict_get ping_result ''packet_loss'' (PInt 0)),
                        (''jitter'', dict_get ping_result ''jitter_ms'' (PInt 0)),
                        (''min_latency'', dict_get ping_result ''min_latency_ms'' PNone),
                        (''max_latency'', dict_get ping_result ''max_latency_ms'' PNone)])]))"

text \<open>Those of the second one, in the \<open>except\<close> clause.\<close>

definition failed_kwargs :: "nat \<Rightarrow> nat \<Rightarrow> nat \<Rightarrow> timestamp \<Rightarrow> string \<Rightarrow> pydict" where
  "failed_kwargs jid destination_id rid now e =
     [(''job_id'', PInt (int jid)),
      (''destination_id'', PInt (int destination_id)),
      (''metric_type'', PStr ''ping''),
      (''value'', PInt 0),
      (''unit'', PStr ''ms''),
      (''status'', PStr ''failed''),
      (''timestamp'', PFloat now),
      (''metadata'', PDict [(''run_id'', PInt (int rid)), (''error'', PStr e)])]"

text \<open>\<open>session.add(metric)\<close> and \<open>commit\<close>, raising when no session can be had.\<close>

definition store_metric :: "pydict \<Rightarrow> database \<Rightarrow> string + database" where
  "store_metric m d =
     (if available d then Inr (d\<lparr>metrics := metrics d @ [m]\<rparr>)
      else Inl ''no session'')"

text \<open>
  \<open>_collect_ping_metric\<close>: \<open>Inl\<close> is an exception leaving it, raised inside its
  \<open>except\<close> clause.
\<close>

definition collect_ping_metric ::
  "nat \<Rightarrow> nat \<Rightarrow> destination_config \<Rightarrow> nat \<Rightarrow> timestamp \<Rightarrow> database \<Rightarrow> string + database" where
  "collect_ping_metric jid destination_id dc rid now d =
     (let attempt =
        (case ping_host (dc_host dc) of
           ProbeRaised e \<Rightarrow> Inl e
         | ProbeReturned ping_result \<Rightarrow>
             (case success_kwargs jid destination_id rid now ping_result of
                Inl e \<Rightarrow> Inl e
              | Inr kwargs \<Rightarrow>
                  (case new_metric_record kwargs of
                     Inl e \<Rightarrow> Inl e
                   | Inr metric \<Rightarrow> store_metric metric d)))
      in case attempt of
           Inr d' \<Rightarrow> Inr d'
         | Inl e \<Rightarrow>
             (case new_metric_record (failed_kwargs jid destination_id rid now e) of
                Inl e' \<Rightarrow> Inl e'
              | Inr metric \<Rightarrow> store_metric metric d))"

text \<open>
  The locals of \<open>_execute_job\<close> and the store, as the loop over the destinations
  threads them. \<open>probed_hosts\<close> is an observation added to the model: the hosts for
  which \<open>_collect_ping_metric\<close> was called, in order.
\<close>

record run_state =
  metrics_collected :: int
  destinations_successful :: int
  destinations_failed :: int
  probed_hosts :: "string list"
  store :: database

text \<open>
  The loop over the configured metric types, for one destination. \<open>Inl\<close> is an
  exception leaving the loop, with the state reached when it was raised.
\<close>

fun collect_metrics ::
  "nat \<Rightarrow> nat \<Rightarrow> destination_config \<Rightarrow> nat \<Rightarrow> timestamp \<Rightarrow> string list
     \<Rightarrow> run_state \<Rightarrow> run_state + run_state" where
  "collect_metrics jid destination_id dc rid now [] st = Inr st"
| "collect_metrics jid destination_id dc rid now (metric_type # rest) st =
     (if metric_type = ''ping'' then
        (case collect_ping_metric jid destination_id dc rid now (store st) of
           Inl e \<Rightarrow> Inl (st\<lparr>probed_hosts := probed_hosts st @ [dc_host dc]\<rparr>)
         | Inr d \<Rightarrow>
             collect_metrics jid destination_id dc rid now rest
               (st\<lparr>store := d,
                   probed_hosts := probed_hosts st @ [dc_host dc],
                   metrics_collected := metrics_collected st + 1\<rparr>))
      else collect_metrics jid destination_id dc rid now rest st)"

text \<open>The body of the loop over the destinations, with its \<open>try\<close> and \<open>except\<close>.\<close>

definition collect_destination ::
  "environment \<Rightarrow> nat \<Rightarrow> job_config \<Rightarrow> nat \<Rightarrow> timestamp \<Rightarrow> run_state \<Rightarrow> destination_config
     \<Rightarrow> run_state" where
  "collect_destination env jid job_config rid now st dc =
     (case get_destination_by_host env (dc_host dc) of
        LookupRaised e \<Rightarrow> st\<lparr>destinations_failed := destinations_failed st + 1\<rparr>
      | NotFound \<Rightarrow> st\<lparr>destinations_failed := destinations_failed st + 1\<rparr>
      | Found destination_id \<Rightarrow>
          (case collect_metrics jid destination_id dc rid now (cfg_metrics job_config) st of
             Inr st' \<Rightarrow> st'\<lparr>destinations_successful := destinations_successful st' + 1\<rparr>
           | Inl st' \<Rightarrow> st'\<lparr>destinations_failed := destinations_failed st' + 1\<rparr>))"

definition collect_all ::
  "environment \<Rightarrow> nat \<Rightarrow> job_config \<Rightarrow> nat \<Rightarrow> timestamp \<Rightarrow> database \<Rightarrow> run_state" where
  "collect_all env jid job_config rid now d =
     foldl (collect_destination env jid job_config rid now)
       \<lparr>metrics_collected = 0, destinations_successful = 0, destinations_failed = 0,
        probed_hosts = [], store = d\<rparr>
       (cfg_destinations job_config)"

text \<open>The three clock readings of a run: for the samples, for the result, for the update.\<close>

record clock =
  at_sample :: timestamp
  at_result :: timestamp
  at_update :: timestamp

text \<open>
  \<open>_execute_job\<close>, run from its first step to its end. Each step of the outer \<open>try\<close>
  block catches its own exceptions, so the outer \<open>except Exception\<close> clause is never
  entered and has no counterpart; the \<open>finally\<close> clause takes the job out of the
  running-job map.
\<close>

definition execute_job ::
  "environment \<Rightarrow> nat \<Rightarrow> job_config \<Rightarrow> nat \<Rightarrow> clock \<Rightarrow> engine \<Rightarrow> engine" where
  "execute_job env jid job_config rid clk s =
     (let st = collect_all env jid job_config rid (at_sample clk) (db s);
          result = \<lparr>res_job_id = jid,
                    res_success = (destinations_failed st = 0),
                    res_metrics_collected = metrics_collected st,
                    res_destinations_successful = destinations_successful st,
                    res_destinations_failed = destinations_failed st,
                    res_error_message = None,
                    res_end_time = at_result clk\<rparr>;
          d1 = complete_job_run rid result (store st);
          d2 = update_job_after_run jid (cfg_interval job_config) result (at_update clk) d1
      in s\<lparr>db := d2, running_jobs := (running_jobs s)(jid := None)\<rparr>)"

section \<open>Scheduler\<close>

definition update_job_next_run :: "nat \<Rightarrow> timestamp option \<Rightarrow> database \<Rightarrow> database" where
  "update_job_next_run jid next_run d =
     (if available d then
        d\<lparr>jobs := map (\<lambda>j. if job_id j = jid then j\<lparr>job_next_run := next_run\<rparr> else j) (jobs d)\<rparr>
      else d)"

text \<open>
  \<open>_calculate_next_run\<close>, with the clock reading it takes: it raises when the date
  does not exist, and otherwise returns it.
\<close>

definition calculate_next_run :: "job_config \<Rightarrow> timestamp \<Rightarrow> string + timestamp" where
  "calculate_next_run job_config now = add_seconds now (cfg_interval job_config)"

text \<open>
  \<open>schedule_job\<close>. The clock is read twice: \<open>now\<close> inside \<open>_calculate_next_run\<close> and
  \<open>later\<close> when the delay is computed. An exception of \<open>_calculate_next_run\<close> is caught
  by the \<open>except Exception\<close> clause, which returns \<open>False\<close>; a \<open>datetime\<close> is always
  truthy, so \<open>if not next_run_time\<close> refuses nothing.
\<close>

definition schedule_job ::
  "nat \<Rightarrow> job_config \<Rightarrow> timestamp \<Rightarrow> timestamp \<Rightarrow> engine \<Rightarrow> bool \<times> engine" where
  "schedule_job jid job_config now later s =
     (if running_jobs s jid \<noteq> None then (False, s)
      else
        (case calculate_next_run job_config now of
           Inl e \<Rightarrow> (False, s)
         | Inr next_run_time \<Rightarrow>
             (let delay = next_run_time - later;
                  delay' = (if delay < 0 then 0 else delay)
              in (True,
                  s\<lparr>scheduled_jobs := (scheduled_jobs s)(jid \<mapsto>
                       \<lparr>dispatch_delay = delay', dispatch_done = False\<rparr>),
                    db := update_job_next_run jid (Some next_run_time) (db s)\<rparr>))))"

definition cleanup_completed_tasks :: "engine \<Rightarrow> engine" where
  "cleanup_completed_tasks s =
     s\<lparr>scheduled_jobs :=
         (\<lambda>jid. case scheduled_jobs s jid of
                  None \<Rightarrow> None
                | Some task \<Rightarrow> if dispatch_done task then None else Some task)\<rparr>"

text \<open>
  The query of \<open>_reschedule_jobs\<close>. A row whose \<open>next_run\<close> is null does not satisfy
  \<open>next_run <= now\<close>.
\<close>

definition jobs_to_reschedule :: "timestamp \<Rightarrow> engine \<Rightarrow> job_row list" where
  "jobs_to_reschedule now s =
     filter (\<lambda>j. job_enabled j
                \<and> (case job_next_run j of None \<Rightarrow> False | Some t \<Rightarrow> t \<le> now)
                \<and> running_jobs s (job_id j) = None
                \<and> scheduled_jobs s (job_id j) = None)
            (jobs (db s))"

text \<open>
  \<open>JobConfig.parse_raw(job.config)\<close> for a row of the query. The rows are instances
  of \<open>Job\<close>, which has no attribute \<open>config\<close>: reading it raises \<open>AttributeError\<close>.
\<close>

definition job_config_of :: "job_row \<Rightarrow> string + job_config" where
  "job_config_of job = Inl (quoted ''Job'' @ '' object has no attribute '' @ quoted ''config'')"

text \<open>
  The loop of \<open>_reschedule_jobs\<close> over the rows of the query. \<open>readings\<close> gives, for a
  job id, the two clock readings taken while \<open>schedule_job\<close> runs for it. An exception
  ends the loop; the \<open>except\<close> clause around it keeps what was done before.
\<close>

fun reschedule_loop ::
  "(nat \<Rightarrow> timestamp \<times> timestamp) \<Rightarrow> job_row list \<Rightarrow> engine \<Rightarrow> engine" where
  "reschedule_loop readings [] s = s"
| "reschedule_loop readings (job # rest) s =
     (case job_config_of job of
        Inl e \<Rightarrow> s
      | Inr job_config \<Rightarrow>
          reschedule_loop readings rest
            (snd (schedule_job (job_id job) job_config
                    (fst (readings (job_id job))) (snd (readings (job_id job))) s)))"

text \<open>
  \<open>_reschedule_jobs\<close>. When no session can be had the query raises and the \<open>except\<close>
  clause leaves everything as it was.
\<close>

definition reschedule_jobs ::
  "timestamp \<Rightarrow> (nat \<Rightarrow> timestamp \<times> timestamp) \<Rightarrow> engine \<Rightarrow> engine" where
  "reschedule_jobs now readings s =
     (if available (db s) then reschedule_loop readings (jobs_to_reschedule now s) s
      else s)"

text \<open>
  One iteration of \<open>_scheduler_loop\<close>: the state it leaves and the seconds it then
  sleeps. Neither step raises, so the \<open>except Exception\<close> clause with its longer sleep
  is never entered.
\<close>

definition scheduler_iteration ::
  "timestamp \<Rightarrow> (nat \<Rightarrow> timestamp \<times> timestamp) \<Rightarrow> engine \<Rightarrow> engine \<times> real" where
  "scheduler_iteration now readings s =
     (reschedule_jobs now readings (cleanup_completed_tasks s), 30)"

section \<open>Notions the properties are stated with\<close>


subsection \<open>What the specification calls jitter\<close>




subsection \<open>Examples\<close>

text \<open>
  An output of the Windows ping with three replies and a summary line reporting 25 per
  cent loss, the output of a probe that got no reply, and an output whose one reply took
  the time \<open>10 ^ 309\<close>.
\<close>

definition three_replies_output :: string where
  "three_replies_output =
     ''Reply from 8.8.8.8: bytes=32 time=15ms TTL=118'' @ [newline] @
     ''Reply from 8.8.8.8: bytes=32 time=14ms TTL=118'' @ [newline] @
     ''Reply from 8.8.8.8: bytes=32 time=16ms TTL=118'' @ [newline] @
     ''    Packets: Sent = 4, Received = 3, Lost = 1 (25% loss),''"



text \<open>
  A job over two hosts, due at time 500 and idle, in a store that opens sessions, and
  the same in a store that does not. The first host is known as destination 7; the
  second host is unknown. The second configuration asks for a metric that has no
  collector, the third has an interval of \<open>10 ^ 12\<close> seconds.
\<close>

definition example_config :: job_config where
  "example_config =
     \<lparr>cfg_name = ''edge'', cfg_interval = 60, cfg_enabled = True, cfg_metrics = [''ping''],
      cfg_destinations = [\<lparr>dc_host = ''10.0.0.1'', dc_display_name = ''first''\<rparr>,
                          \<lparr>dc_host = ''10.0.0.2'', dc_display_name = ''second''\<rparr>]\<rparr>"

definition dns_config :: job_config where
  "dns_config =
     \<lparr>cfg_name = ''names'', cfg_interval = 60, cfg_enabled = True, cfg_metrics = [''dns''],
      cfg_destinations = [\<lparr>dc_host = ''10.0.0.1'', dc_display_name = ''first''\<rparr>]\<rparr>"

definition long_config :: job_config where
  "long_config =
     \<lparr>cfg_name = ''rare'', cfg_interval = 10 ^ 12, cfg_enabled = True, cfg_metrics = [''dns''],
      cfg_destinations = [\<lparr>dc_host = ''10.0.0.1'', dc_display_name = ''first''\<rparr>]\<rparr>"

definition example_db :: database where
  "example_db =
     \<lparr>available = True,
      jobs = [\<lparr>job_id = 1, job_enabled = True, job_last_run = None,
               job_next_run = Some 500\<rparr>],
      job_runs = [], metrics = []\<rparr>"

definition example_engine :: engine where
  "example_engine = \<lparr>db = example_db, running_jobs = Map.empty, scheduled_jobs = Map.empty\<rparr>"

definition closed_engine :: engine where
  "closed_engine =
     \<lparr>db = example_db\<lparr>available := False\<rparr>, running_jobs = Map.empty,
      scheduled_jobs = Map.empty\<rparr>"

definition example_env :: environment where
  "example_env =
     \<lparr>get_destination_by_host = (\<lambda>h. if h = ''10.0.0.1'' then Found 7 else NotFound)\<rparr>"

definition example_clock :: clock where
  "example_clock = \<lparr>at_sample = 950, at_result = 990, at_update = 1000\<rparr>"

text \<open>The engine once job 1 has been started and its execution unit is suspended at an \<open>await\<close>.\<close>

definition suspended_engine :: engine where
  "suspended_engine =
     \<lparr>db = example_db,
      running_jobs = Map.empty(1 \<mapsto> \<lparr>unit_phase = Suspended, unit_run_id = 1\<rparr>),
      scheduled_jobs = Map.empty\<rparr>"

section \<open>Properties of the collector\<close>

subsection \<open>Jitter\<close>















subsection \<open>Parsing and probing\<close>

lemma parse_three_replies:
  "parse_lines (split_nl (strip three_replies_output))
     = \<lparr>reply_times = [15, 14, 16], packet_loss = 25, ttl_seen = Some 118\<rparr>"
  by code_simp



text \<open>
  Claim C10. In every result of the parser, \<open>packets_sent\<close> is \<open>packets_received\<close>
  plus the parsed loss percentage (the percentage itself, not a number of packets); three
  replies with a summary line reporting 25 per cent loss give \<open>packets_sent = 28\<close>.
\<close>

theorem packets_sent_adds_loss_percent:
  "map_of (parse_ping_output output h ts) ''packets_received''
     = Some (PInt (int (length (reply_times (parse_lines (split_nl (strip output)))))))
   \<and> map_of (parse_ping_output output h ts) ''packet_loss_percent''
     = Some (PInt (packet_loss (parse_lines (split_nl (strip output)))))
   \<and> map_of (parse_ping_output output h ts) ''packets_sent''
     = Some (PInt (int (length (reply_times (parse_lines (split_nl (strip output)))))
                   + packet_loss (parse_lines (split_nl (strip output)))))
   \<and> map_of (parse_ping_output three_replies_output h ts) ''packets_received'' = Some (PInt 3)
   \<and> map_of (parse_ping_output three_replies_output h ts) ''packet_loss_percent'' = Some (PInt 25)
   \<and> map_of (parse_ping_output three_replies_output h ts) ''packets_sent'' = Some (PInt 28)"
  by (simp add: parse_ping_output_def Let_def parse_three_replies)









section \<open>Properties of the job manager\<close>

subsection \<open>Starting and stopping\<close>

lemma start_job_refuses:
  "running_jobs s jid \<noteq> None \<Longrightarrow> start_job jid job_config now s = (False, s)"
  by (simp add: start_job_def)

lemma start_job_accepts:
  "running_jobs s jid = None \<Longrightarrow> available (db s) \<Longrightarrow>
   start_job jid job_config now s =
     (True, s\<lparr>db := (db s)\<lparr>job_runs := job_runs (db s) @
                 [new_job_run jid (int (length (cfg_destinations job_config))) now (db s)]\<rparr>,
               running_jobs := (running_jobs s)(jid \<mapsto>
                 \<lparr>unit_phase = Created, unit_run_id = Suc (length (job_runs (db s)))\<rparr>)\<rparr>)"
  by (simp add: start_job_def create_job_run_def new_job_run_def Let_def)

lemma start_job_without_session:
  "running_jobs s jid = None \<Longrightarrow> \<not> available (db s) \<Longrightarrow>
   start_job jid job_config now s = (False, s)"
  by (simp add: start_job_def create_job_run_def)

lemma stop_job_not_running:
  "running_jobs s jid = None \<Longrightarrow> stop_job jid s = (False, s)"
  by (simp add: stop_job_def)

lemma stop_job_created:
  "running_jobs s jid = Some task \<Longrightarrow> unit_phase task = Created \<Longrightarrow>
   stop_job jid s = (True, s\<lparr>running_jobs := (running_jobs s)(jid := None),
                              db := update_job_status jid False (db s)\<rparr>)"
  by (simp add: stop_job_def cancel_and_await_def Let_def)

lemma stop_job_suspended:
  "running_jobs s jid = Some task \<Longrightarrow> unit_phase task = Suspended \<Longrightarrow>
   stop_job jid s = (False, s\<lparr>running_jobs := (running_jobs s)(jid := None)\<rparr>)"
  by (simp add: stop_job_def cancel_and_await_def Let_def)

lemma example_restarted:
  "job_runs (db (snd (start_job 1 example_config 902
                   (snd (stop_job 1 (snd (start_job 1 example_config 900 example_engine)))))))
     = [\<lparr>run_id = 1, run_job_id = 1, run_start_time = 900, run_end_time = None,
         run_status = ''running'', total_destinations = 2, successful_destinations = 0,
         failed_destinations = 0, error_message = None\<rparr>,
        \<lparr>run_id = 2, run_job_id = 1, run_start_time = 902, run_end_time = None,
         run_status = ''running'', total_destinations = 2, successful_destinations = 0,
         failed_destinations = 0, error_message = None\<rparr>]"
  by (simp add: start_job_def stop_job_def cancel_and_await_def create_job_run_def
                new_job_run_def update_job_status_def example_engine_def example_db_def
                example_config_def Let_def)

text \<open>
  Claim C1, as stated, holds for every job and bounds the running job runs of a job by
  one at every instant. With a store that opens no session, as a store of the sources'
  \<open>Database\<close> class is, both of two successive calls return \<open>False\<close> and no row is
  created. And a run that is cancelled keeps its row in status \<open>running\<close>: starting job
  1, stopping it and starting it again leaves two such rows of job 1.
\<close>

theorem start_job_twice_counterexample:
  "fst (start_job 1 example_config 900 closed_engine) = False
   \<and> fst (start_job 1 example_config 901 (snd (start_job 1 example_config 900 closed_engine)))
       = False
   \<and> job_runs (db (snd (start_job 1 example_config 901
                          (snd (start_job 1 example_config 900 closed_engine))))) = []
   \<and> map run_job_id
        (job_runs (db (snd (start_job 1 example_config 902
           (snd (stop_job 1 (snd (start_job 1 example_config 900 example_engine)))))))) = [1, 1]
   \<and> map run_status
        (job_runs (db (snd (start_job 1 example_config 902
           (snd (stop_job 1 (snd (start_job 1 example_config 900 example_engine))))))))
       = [''running'', ''running'']"
  by (simp only: example_restarted)
     (simp add: start_job_def create_job_run_def closed_engine_def example_db_def)

text \<open>
  Claim C1, amended. For a job that is not in the running-job map, with a store that
  accepts the new row, two calls of \<open>start_job\<close> in immediate succession return
  \<open>True\<close> and then \<open>False\<close>, and together they create exactly one job run, a running
  one of that job; the running-job map then holds the one execution unit of that run.
  With a store that opens no session the call returns \<open>False\<close> and changes nothing. In
  any state, \<open>start_job\<close> returns \<open>False\<close> and changes nothing when the job id is in the
  running-job map, so that the map never holds two execution units of a job.
\<close>

theorem start_job_twice:
  "(running_jobs s jid = None \<and> available (db s) \<longrightarrow>
      fst (start_job jid job_config now s) = True
      \<and> fst (start_job jid job_config' now' (snd (start_job jid job_config now s))) = False
      \<and> job_runs (db (snd (start_job jid job_config' now' (snd (start_job jid job_config now s)))))
          = job_runs (db s)
              @ [new_job_run jid (int (length (cfg_destinations job_config))) now (db s)]
      \<and> run_job_id (new_job_run jid (int (length (cfg_destinations job_config))) now (db s)) = jid
      \<and> run_status (new_job_run jid (int (length (cfg_destinations job_config))) now (db s))
          = ''running''
      \<and> running_jobs (snd (start_job jid job_config' now' (snd (start_job jid job_config now s)))) jid
          = Some \<lparr>unit_phase = Created,
                  unit_run_id = run_id (new_job_run jid
                    (int (length (cfg_destinations job_config))) now (db s))\<rparr>)
   \<and> (running_jobs s jid = None \<and> \<not> available (db s) \<longrightarrow>
        start_job jid job_config now s = (False, s))
   \<and> (running_jobs s jid \<noteq> None \<longrightarrow> start_job jid job_config now s = (False, s))"
  by (simp add: start_job_accepts start_job_refuses start_job_without_session new_job_run_def)

theorem start_job_twice_witness:
  "running_jobs example_engine 1 = None \<and> available (db example_engine)
   \<and> fst (start_job 1 example_config 900 example_engine) = True
   \<and> fst (start_job 1 example_config 901 (snd (start_job 1 example_config 900 example_engine)))
       = False
   \<and> length (job_runs (db (snd (start_job 1 example_config 901
                               (snd (start_job 1 example_config 900 example_engine)))))) = 1
   \<and> running_jobs closed_engine 1 = None \<and> \<not> available (db closed_engine)
   \<and> start_job 1 example_config 900 closed_engine = (False, closed_engine)
   \<and> running_jobs suspended_engine 1 \<noteq> None
   \<and> start_job 1 example_config 900 suspended_engine = (False, suspended_engine)"
  using start_job_twice [of example_engine 1 example_config 900 example_config 901]
        start_job_twice [of closed_engine 1 example_config 900 example_config 901]
        start_job_twice [of suspended_engine 1 example_config 900 example_config 901]
  by (simp add: example_engine_def closed_engine_def suspended_engine_def example_db_def)

text \<open>
  Claim C6 says that stopping a running job marks it disabled. When the execution unit
  is suspended at an \<open>await\<close>, as it is whenever it has begun its run, cancelling it
  makes its own \<open>finally\<close> clause delete the map entry; the \<open>del\<close> of \<open>stop_job\<close>
  then raises, \<open>stop_job\<close> returns \<open>False\<close>, and the job stays enabled in the store.
\<close>

theorem stop_job_leaves_suspended_job_enabled:
  "fst (stop_job 1 suspended_engine) = False
   \<and> running_jobs (snd (stop_job 1 suspended_engine)) 1 = None
   \<and> map job_enabled (jobs (db suspended_engine)) = [True]
   \<and> map job_enabled (jobs (db (snd (stop_job 1 suspended_engine)))) = [True]"
  by (simp add: stop_job_def cancel_and_await_def suspended_engine_def example_db_def Let_def)

subsection \<open>Collecting the metrics of a run\<close>


lemma failed_record_refused:
  "new_metric_record (failed_kwargs jid did rid now e)
     = Inl (quoted ''value'' @ '' is an invalid keyword argument for MetricRecord'')"
  by (simp add: new_metric_record_def failed_kwargs_def metric_record_attributes_def)

lemma collect_ping_metric_raises:
  "collect_ping_metric jid did dc rid now d
     = Inl (quoted ''value'' @ '' is an invalid keyword argument for MetricRecord'')"
  by (simp add: collect_ping_metric_def ping_host_def failed_record_refused)

lemma collect_metrics_without_ping:
  "''ping'' \<notin> set ms \<Longrightarrow> collect_metrics jid did dc rid now ms st = Inr st"
  by (induction ms) auto

lemma collect_metrics_with_ping:
  "''ping'' \<in> set ms \<Longrightarrow>
   collect_metrics jid did dc rid now ms st
     = Inl (st\<lparr>probed_hosts := probed_hosts st @ [dc_host dc]\<rparr>)"
  by (induction ms) (auto simp add: collect_ping_metric_raises)

lemma collect_destination_found:
  "get_destination_by_host env (dc_host dc) = Found did \<Longrightarrow>
   collect_destination env jid job_config rid now st dc
     = (if ''ping'' \<in> set (cfg_metrics job_config)
        then st\<lparr>probed_hosts := probed_hosts st @ [dc_host dc],
                destinations_failed := destinations_failed st + 1\<rparr>
        else st\<lparr>destinations_successful := destinations_successful st + 1\<rparr>)"
  by (simp add: collect_destination_def collect_metrics_with_ping collect_metrics_without_ping)

lemma collect_destination_unresolved:
  "\<forall>did. get_destination_by_host env (dc_host dc) \<noteq> Found did \<Longrightarrow>
   collect_destination env jid job_config rid now st dc
     = st\<lparr>destinations_failed := destinations_failed st + 1\<rparr>"
  by (cases "get_destination_by_host env (dc_host dc)") (simp_all add: collect_destination_def)

lemma collect_destination_step:
  "destinations_successful (collect_destination env jid job_config rid now st dc)
     + destinations_failed (collect_destination env jid job_config rid now st dc)
     = destinations_successful st + destinations_failed st + 1
   \<and> destinations_failed st
       \<le> destinations_failed (collect_destination env jid job_config rid now st dc)
   \<and> store (collect_destination env jid job_config rid now st dc) = store st"
proof (cases "get_destination_by_host env (dc_host dc)")
  case (LookupRaised e)
  then show ?thesis by (simp add: collect_destination_def)
next
  case NotFound
  then show ?thesis by (simp add: collect_destination_def)
next
  case (Found did)
  then show ?thesis by (simp add: collect_destination_found)
qed

lemma collect_loop:
  "destinations_successful (foldl (collect_destination env jid job_config rid now) st ds)
     + destinations_failed (foldl (collect_destination env jid job_config rid now) st ds)
     = destinations_successful st + destinations_failed st + int (length ds)
   \<and> destinations_failed st
       \<le> destinations_failed (foldl (collect_destination env jid job_config rid now) st ds)
   \<and> store (foldl (collect_destination env jid job_config rid now) st ds) = store st"
proof (induction ds arbitrary: st)
  case Nil
  show ?case by simp
next
  case (Cons dc ds)
  show ?case
    using collect_destination_step [of env jid job_config rid now st dc]
          Cons.IH [of "collect_destination env jid job_config rid now st dc"]
    by simp
qed

lemma collect_all_counts:
  "destinations_successful (collect_all env jid job_config rid now d)
     + destinations_failed (collect_all env jid job_config rid now d)
     = int (length (cfg_destinations job_config))
   \<and> 0 \<le> destinations_failed (collect_all env jid job_config rid now d)
   \<and> store (collect_all env jid job_config rid now d) = d"
  using collect_loop [of env jid job_config rid now
      "\<lparr>metrics_collected = 0, destinations_successful = 0, destinations_failed = 0,
        probed_hosts = [], store = d\<rparr>" "cfg_destinations job_config"]
  by (simp add: collect_all_def)

lemma example_collect_all:
  "collect_all example_env jid example_config rid now d
     = \<lparr>metrics_collected = 0, destinations_successful = 0, destinations_failed = 2,
        probed_hosts = [''10.0.0.1''], store = d\<rparr>"
  by (simp add: collect_all_def collect_destination_found collect_destination_unresolved
                example_env_def example_config_def)

text \<open>
  Claim C8 says that every probe of a job run leaves exactly one sample in the store and
  that its failure stays inside the metric-collection step. The probe itself raises, as
  the collector has no \<open>ping_host\<close>; the \<open>except\<close> clause then builds its
  \<open>MetricRecord\<close> with the keywords \<open>value\<close> and \<open>unit\<close>, which the class does not
  have, so that the constructor raises inside the clause: the exception leaves
  \<open>_collect_ping_metric\<close> and nothing is stored.
\<close>

theorem no_sample_is_persisted:
  "collect_ping_metric 1 7 \<lparr>dc_host = ''10.0.0.1'', dc_display_name = ''first''\<rparr> 1 950 example_db
     = Inl (quoted ''value'' @ '' is an invalid keyword argument for MetricRecord'')
   \<and> probed_hosts (collect_all example_env 1 example_config 1 950 example_db) = [''10.0.0.1'']
   \<and> metrics (store (collect_all example_env 1 example_config 1 950 example_db)) = []"
  by (simp only: collect_ping_metric_raises example_collect_all) (simp add: example_db_def)



subsection \<open>Finishing a run\<close>

lemma add_seconds_value: "add_seconds now n = Inr t \<Longrightarrow> t = now + of_int n"
  by (simp add: add_seconds_def split: if_splits)

lemma collect_all_without_ping:
  "collect_all example_env jid dns_config rid now d
     = \<lparr>metrics_collected = 0, destinations_successful = 1, destinations_failed = 0,
        probed_hosts = [], store = d\<rparr>
   \<and> collect_all example_env jid long_config rid now d
     = \<lparr>metrics_collected = 0, destinations_successful = 1, destinations_failed = 0,
        probed_hosts = [], store = d\<rparr>"
  by (simp add: collect_all_def collect_destination_found example_env_def dns_config_def
                long_config_def)

lemma example_run:
  "jobs (db (execute_job example_env 1 example_config 1 example_clock
         (snd (start_job 1 example_config 900 example_engine))))
     = [\<lparr>job_id = 1, job_enabled = False, job_last_run = Some 990, job_next_run = Some 1000\<rparr>]
   \<and> job_runs (db (execute_job example_env 1 example_config 1 example_clock
         (snd (start_job 1 example_config 900 example_engine))))
     = [\<lparr>run_id = 1, run_job_id = 1, run_start_time = 900,
         run_end_time = Some 990, run_status = ''failed'',
         total_destinations = 2, successful_destinations = 0,
         failed_destinations = 2, error_message = None\<rparr>]"
  by (simp add: execute_job_def example_clock_def example_collect_all Let_def
                complete_job_run_def update_job_after_run_def)
     (simp add: start_job_def create_job_run_def new_job_run_def example_engine_def
                example_db_def example_config_def Let_def)

lemma long_run:
  "jobs (db (execute_job example_env 1 long_config 1 example_clock
         (snd (start_job 1 long_config 900 example_engine))))
     = [\<lparr>job_id = 1, job_enabled = True, job_last_run = None, job_next_run = Some 500\<rparr>]
   \<and> job_runs (db (execute_job example_env 1 long_config 1 example_clock
         (snd (start_job 1 long_config 900 example_engine))))
     = [\<lparr>run_id = 1, run_job_id = 1, run_start_time = 900,
         run_end_time = Some 990, run_status = ''completed'',
         total_destinations = 1, successful_destinations = 1,
         failed_destinations = 0, error_message = None\<rparr>]"
  by (simp add: execute_job_def example_clock_def collect_all_without_ping Let_def
                complete_job_run_def update_job_after_run_def add_seconds_def
                datetime_min_def datetime_end_def)
     (simp add: start_job_def create_job_run_def new_job_run_def example_engine_def
                example_db_def long_config_def Let_def)

text \<open>
  Claim C2, as stated, leaves \<open>next_run\<close> at its prior value when the run fails, and
  sets it to the time of the update plus the interval when the run completes. In the
  example the job was due at 500; its run, with two destinations counted failed, ends
  \<open>failed\<close>, disables the job, and sets \<open>next_run\<close> to the time of the update, 1000.
  And the run of a job whose interval is \<open>10 ^ 12\<close> seconds ends \<open>completed\<close> and
  leaves \<open>next_run\<close> at 500: the date 1000 plus the interval does not exist, and the
  update of the job is skipped.
\<close>

theorem failed_run_moves_next_run_counterexample:
  "map job_next_run (jobs (db example_engine)) = [Some 500]
   \<and> map run_status (job_runs (db (execute_job example_env 1 example_config 1 example_clock
        (snd (start_job 1 example_config 900 example_engine))))) = [''failed'']
   \<and> map job_enabled (jobs (db (execute_job example_env 1 example_config 1 example_clock
        (snd (start_job 1 example_config 900 example_engine))))) = [False]
   \<and> map job_next_run (jobs (db (execute_job example_env 1 example_config 1 example_clock
        (snd (start_job 1 example_config 900 example_engine))))) = [Some 1000]
   \<and> map run_status (job_runs (db (execute_job example_env 1 long_config 1 example_clock
        (snd (start_job 1 long_config 900 example_engine))))) = [''completed'']
   \<and> map job_next_run (jobs (db (execute_job example_env 1 long_config 1 example_clock
        (snd (start_job 1 long_config 900 example_engine))))) = [Some 500]"
  by (simp only: example_run long_run) (simp add: example_engine_def example_db_def)

text \<open>
  Claim C2, amended. In a store that accepts the updates, the run that finishes has
  status \<open>failed\<close> if \<open>failed_destinations > 0\<close> and \<open>completed\<close> otherwise, with
  the two counts of the run. On \<open>failed\<close> the job is disabled and its \<open>next_run\<close>
  becomes the time of the update, with no interval added. On \<open>completed\<close> the job's
  \<open>next_run\<close> becomes the time of the update plus the interval and the job is enabled,
  when that date exists; when it does not, the job's row is left as it was. In a store
  that opens no session neither the run nor the job is updated.
\<close>

theorem run_finalization:
  "(available (db s) \<longrightarrow>
      job_runs (db (execute_job env jid job_config rid clk s))
        = map (\<lambda>r. if run_id r = rid
                    then r\<lparr>run_end_time := Some (at_result clk),
                           run_status :=
                             (if 0 < destinations_failed
                                       (collect_all env jid job_config rid (at_sample clk) (db s))
                              then ''failed'' else ''completed''),
                           successful_destinations :=
                             destinations_successful
                               (collect_all env jid job_config rid (at_sample clk) (db s)),
                           failed_destinations :=
                             destinations_failed
                               (collect_all env jid job_config rid (at_sample clk) (db s)),
                           error_message := None\<rparr>
                    else r) (job_runs (db s))
      \<and> (0 < destinations_failed (collect_all env jid job_config rid (at_sample clk) (db s)) \<longrightarrow>
           jobs (db (execute_job env jid job_config rid clk s))
             = map (\<lambda>j. if job_id j = jid
                         then j\<lparr>job_last_run := Some (at_result clk),
                                job_next_run := Some (at_update clk),
                                job_enabled := False\<rparr>
                         else j) (jobs (db s)))
      \<and> (destinations_failed (collect_all env jid job_config rid (at_sample clk) (db s)) = 0
           \<and> add_seconds (at_update clk) (cfg_interval job_config) = Inr t \<longrightarrow>
           t = at_update clk + of_int (cfg_interval job_config)
           \<and> jobs (db (execute_job env jid job_config rid clk s))
               = map (\<lambda>j. if job_id j = jid
                           then j\<lparr>job_last_run := Some (at_result clk),
                                  job_next_run := Some t,
                                  job_enabled := True\<rparr>
                           else j) (jobs (db s)))
      \<and> (destinations_failed (collect_all env jid job_config rid (at_sample clk) (db s)) = 0
           \<and> add_seconds (at_update clk) (cfg_interval job_config) = Inl e \<longrightarrow>
           jobs (db (execute_job env jid job_config rid clk s)) = jobs (db s)))
   \<and> (\<not> available (db s) \<longrightarrow>
        job_runs (db (execute_job env jid job_config rid clk s)) = job_runs (db s)
        \<and> jobs (db (execute_job env jid job_config rid clk s)) = jobs (db s))"
proof -
  let ?st = "collect_all env jid job_config rid (at_sample clk) (db s)"
  have c: "0 \<le> destinations_failed ?st" and t: "store ?st = db s"
    using collect_all_counts [of env jid job_config rid "at_sample clk" "db s"] by simp_all
  have closed: "\<not> available (db s) \<longrightarrow>
        job_runs (db (execute_job env jid job_config rid clk s)) = job_runs (db s)
        \<and> jobs (db (execute_job env jid job_config rid clk s)) = jobs (db s)"
    using t
    by (simp add: execute_job_def complete_job_run_def update_job_after_run_def Let_def
             split: sum.splits)
  have runs: "available (db s) \<longrightarrow>
      job_runs (db (execute_job env jid job_config rid clk s))
        = map (\<lambda>r. if run_id r = rid
                    then r\<lparr>run_end_time := Some (at_result clk),
                           run_status :=
                             (if 0 < destinations_failed ?st then ''failed'' else ''completed''),
                           successful_destinations := destinations_successful ?st,
                           failed_destinations := destinations_failed ?st,
                           error_message := None\<rparr>
                    else r) (job_runs (db s))"
  proof (cases "destinations_failed ?st = 0")
    case True
    then show ?thesis
      using t
      by (simp add: execute_job_def complete_job_run_def update_job_after_run_def Let_def
               split: sum.splits)
  next
    case False
    then have "0 < destinations_failed ?st" using c by simp
    then show ?thesis
      using t False
      by (simp add: execute_job_def complete_job_run_def update_job_after_run_def Let_def)
  qed
  have failed: "available (db s) \<longrightarrow> 0 < destinations_failed ?st \<longrightarrow>
           jobs (db (execute_job env jid job_config rid clk s))
             = map (\<lambda>j. if job_id j = jid
                         then j\<lparr>job_last_run := Some (at_result clk),
                                job_next_run := Some (at_update clk),
                                job_enabled := False\<rparr>
                         else j) (jobs (db s))"
    using t
    by (simp add: execute_job_def complete_job_run_def update_job_after_run_def Let_def)
  have completed: "available (db s) \<longrightarrow>
           destinations_failed ?st = 0
           \<and> add_seconds (at_update clk) (cfg_interval job_config) = Inr t \<longrightarrow>
           t = at_update clk + of_int (cfg_interval job_config)
           \<and> jobs (db (execute_job env jid job_config rid clk s))
               = map (\<lambda>j. if job_id j = jid
                           then j\<lparr>job_last_run := Some (at_result clk),
                                  job_next_run := Some t,
                                  job_enabled := True\<rparr>
                           else j) (jobs (db s))"
    using t add_seconds_value [of "at_update clk" "cfg_interval job_config" t]
    by (simp add: execute_job_def complete_job_run_def update_job_after_run_def Let_def)
  have skipped: "available (db s) \<longrightarrow>
           destinations_failed ?st = 0
           \<and> add_seconds (at_update clk) (cfg_interval job_config) = Inl e \<longrightarrow>
           jobs (db (execute_job env jid job_config rid clk s)) = jobs (db s)"
    using t
    by (simp add: execute_job_def complete_job_run_def update_job_after_run_def Let_def)
  from closed runs failed completed skipped show ?thesis by blast
qed

lemma example_started:
  "db (snd (start_job jid job_config now example_engine))
     = example_db\<lparr>job_runs :=
         [new_job_run jid (int (length (cfg_destinations job_config))) now example_db]\<rparr>
   \<and> db (snd (start_job jid job_config now closed_engine)) = example_db\<lparr>available := False\<rparr>"
  by (simp add: start_job_def create_job_run_def example_engine_def closed_engine_def
                example_db_def Let_def)

theorem run_finalization_witness:
  "available (db (snd (start_job 1 example_config 900 example_engine)))
   \<and> 0 < destinations_failed (collect_all example_env 1 example_config 1 950
            (db (snd (start_job 1 example_config 900 example_engine))))
   \<and> map run_status (job_runs (db (execute_job example_env 1 example_config 1 example_clock
        (snd (start_job 1 example_config 900 example_engine))))) = [''failed'']
   \<and> map job_next_run (jobs (db (execute_job example_env 1 example_config 1 example_clock
        (snd (start_job 1 example_config 900 example_engine))))) = [Some 1000]
   \<and> destinations_failed (collect_all example_env 1 dns_config 1 950
            (db (snd (start_job 1 dns_config 900 example_engine)))) = 0
   \<and> add_seconds 1000 (cfg_interval dns_config) = Inr 1060
   \<and> map job_next_run (jobs (db (execute_job example_env 1 dns_config 1 example_clock
        (snd (start_job 1 dns_config 900 example_engine))))) = [Some 1060]
   \<and> map job_enabled (jobs (db (execute_job example_env 1 dns_config 1 example_clock
        (snd (start_job 1 dns_config 900 example_engine))))) = [True]
   \<and> add_seconds 1000 (cfg_interval long_config) = Inl ''date value out of range''
   \<and> map job_next_run (jobs (db (execute_job example_env 1 long_config 1 example_clock
        (snd (start_job 1 long_config 900 example_engine))))) = [Some 500]
   \<and> \<not> available (db (snd (start_job 1 example_config 900 closed_engine)))
   \<and> job_runs (db (execute_job example_env 1 example_config 1 example_clock
        (snd (start_job 1 example_config 900 closed_engine)))) = []"
proof -
  let ?s = "\<lambda>job_config. snd (start_job 1 job_config 900 example_engine)"
  let ?c = "snd (start_job 1 example_config 900 closed_engine)"
  note a = run_finalization [where s = "?s example_config" and env = example_env and jid = 1
             and job_config = example_config and rid = 1 and clk = example_clock
             and t = 0 and e = "[]"]
  note b = run_finalization [where s = "?s dns_config" and env = example_env and jid = 1
             and job_config = dns_config and rid = 1 and clk = example_clock
             and t = 1060 and e = "[]"]
  note c = run_finalization [where s = "?s long_config" and env = example_env and jid = 1
             and job_config = long_config and rid = 1 and clk = example_clock
             and t = 0 and e = "''date value out of range''"]
  note d = run_finalization [where s = ?c and env = example_env and jid = 1
             and job_config = example_config and rid = 1 and clk = example_clock
             and t = 0 and e = "[]"]
  have av: "available (db (?s example_config))" "available (db (?s dns_config))"
    "available (db (?s long_config))" "\<not> available (db ?c)"
    by (simp_all add: example_started example_db_def)
  have f: "0 < destinations_failed (collect_all example_env 1 example_config 1 950
                 (db (?s example_config)))"
    by (simp add: example_collect_all)
  have z: "destinations_failed (collect_all example_env 1 dns_config 1 950 (db (?s dns_config))) = 0"
    "destinations_failed (collect_all example_env 1 long_config 1 950 (db (?s long_config))) = 0"
    by (simp_all add: collect_all_without_ping)
  have s: "add_seconds 1000 (cfg_interval dns_config) = Inr 1060"
    "add_seconds 1000 (cfg_interval long_config) = Inl ''date value out of range''"
    by (simp_all add: add_seconds_def dns_config_def long_config_def datetime_min_def
                      datetime_end_def)
  have a1: "map run_status (job_runs (db (execute_job example_env 1 example_config 1 example_clock
              (?s example_config)))) = [''failed'']
     \<and> map job_next_run (jobs (db (execute_job example_env 1 example_config 1 example_clock
              (?s example_config)))) = [Some 1000]"
    using a av(1) f
    by (simp add: example_clock_def example_started example_db_def new_job_run_def)
  have b1: "map job_next_run (jobs (db (execute_job example_env 1 dns_config 1 example_clock
              (?s dns_config)))) = [Some 1060]
     \<and> map job_enabled (jobs (db (execute_job example_env 1 dns_config 1 example_clock
              (?s dns_config)))) = [True]"
    using b av(2) z(1) s(1)
    by (simp add: example_clock_def example_started example_db_def)
  have c1: "map job_next_run (jobs (db (execute_job example_env 1 long_config 1 example_clock
              (?s long_config)))) = [Some 500]"
    using c av(3) z(2) s(2)
    by (simp add: example_clock_def example_started example_db_def)
  have d1: "job_runs (db (execute_job example_env 1 example_config 1 example_clock ?c)) = []"
    using d av(4) by (simp add: example_started example_db_def)
  from av(1) f a1 z(1) s(1) b1 s(2) c1 av(4) d1 show ?thesis by simp
qed

section \<open>Properties of the scheduler\<close>

lemma calculate_next_run_value:
  "calculate_next_run job_config now = Inr t \<Longrightarrow> t = now + of_int (cfg_interval job_config)"
  by (simp add: calculate_next_run_def add_seconds_def split: if_splits)

lemma schedule_job_refuses:
  "running_jobs s jid \<noteq> None \<Longrightarrow> schedule_job jid job_config now later s = (False, s)"
  by (simp add: schedule_job_def)

lemma schedule_job_no_date:
  "running_jobs s jid = None \<Longrightarrow> calculate_next_run job_config now = Inl e \<Longrightarrow>
   schedule_job jid job_config now later s = (False, s)"
  by (simp add: schedule_job_def)

lemma schedule_job_accepts:
  "running_jobs s jid = None \<Longrightarrow> calculate_next_run job_config now = Inr t \<Longrightarrow>
   schedule_job jid job_config now later s
     = (True, s\<lparr>scheduled_jobs := (scheduled_jobs s)(jid \<mapsto>
                    \<lparr>dispatch_delay = max 0 (t - later), dispatch_done = False\<rparr>),
                 db := update_job_next_run jid (Some t) (db s)\<rparr>)"
  by (simp add: schedule_job_def Let_def max_def)

lemma long_interval_has_no_date:
  "calculate_next_run long_config 1000 = Inl ''date value out of range''"
  by (simp add: calculate_next_run_def add_seconds_def long_config_def datetime_min_def
                datetime_end_def)

lemma example_next_run: "calculate_next_run example_config 1000 = Inr 1060"
  by (simp add: calculate_next_run_def add_seconds_def example_config_def datetime_min_def
                datetime_end_def)

text \<open>
  Claim C7, as stated, has \<open>schedule_job\<close> schedule every job that is not running and
  persist its \<open>next_run\<close>. For the interval of \<open>10 ^ 12\<close> seconds, which a \<open>JobConfig\<close>
  admits, the date \<open>now + interval\<close> does not exist: \<open>schedule_job\<close> returns \<open>False\<close>
  and records no dispatch unit. And with a store that opens no session, as a store of
  the sources' \<open>Database\<close> class is, it returns \<open>True\<close> and records the dispatch unit,
  but the job's \<open>next_run\<close> stays 500.
\<close>

theorem schedule_job_counterexample:
  "running_jobs example_engine 1 = None
   \<and> fst (schedule_job 1 long_config 1000 1001 example_engine) = False
   \<and> scheduled_jobs (snd (schedule_job 1 long_config 1000 1001 example_engine)) 1 = None
   \<and> running_jobs closed_engine 1 = None
   \<and> fst (schedule_job 1 example_config 1000 1001 closed_engine) = True
   \<and> scheduled_jobs (snd (schedule_job 1 example_config 1000 1001 closed_engine)) 1
       = Some \<lparr>dispatch_delay = 59, dispatch_done = False\<rparr>
   \<and> map job_next_run (jobs (db (snd (schedule_job 1 example_config 1000 1001 closed_engine))))
       = [Some 500]"
proof -
  have e: "running_jobs example_engine 1 = None" and c: "running_jobs closed_engine 1 = None"
    by (simp_all add: example_engine_def closed_engine_def)
  have l: "schedule_job 1 long_config 1000 1001 example_engine = (False, example_engine)"
    using e long_interval_has_no_date by (rule schedule_job_no_date)
  have a: "schedule_job 1 example_config 1000 1001 closed_engine
     = (True, closed_engine\<lparr>scheduled_jobs := (scheduled_jobs closed_engine)(1 \<mapsto>
                    \<lparr>dispatch_delay = max 0 (1060 - 1001), dispatch_done = False\<rparr>),
                 db := update_job_next_run 1 (Some 1060) (db closed_engine)\<rparr>)"
    using c example_next_run by (rule schedule_job_accepts)
  show ?thesis
    unfolding l a
    by (simp add: example_engine_def closed_engine_def example_db_def update_job_next_run_def)
qed

text \<open>
  Claim C7, amended. \<open>schedule_job\<close> returns \<open>False\<close> and changes nothing when the job
  id is in the running-job map, and when the date \<open>now + interval\<close> does not exist.
  Otherwise it computes \<open>next_run = now + interval\<close> from the configured interval,
  returns \<open>True\<close> and records a dispatch unit in the scheduled-job map, whose delay is
  the time from the second clock reading to \<open>next_run\<close>, and zero when \<open>next_run\<close> is
  already past; it persists the new \<open>next_run\<close> of the job in a store that accepts the
  update, and leaves the jobs as they were in a store that opens no session.
\<close>

theorem schedule_job_behaviour:
  "(running_jobs s jid \<noteq> None \<longrightarrow> schedule_job jid job_config now later s = (False, s))
   \<and> (running_jobs s jid = None \<and> calculate_next_run job_config now = Inl e \<longrightarrow>
        schedule_job jid job_config now later s = (False, s))
   \<and> (running_jobs s jid = None \<and> calculate_next_run job_config now = Inr t \<longrightarrow>
        t = now + of_int (cfg_interval job_config)
        \<and> fst (schedule_job jid job_config now later s) = True
        \<and> scheduled_jobs (snd (schedule_job jid job_config now later s)) jid
            = Some \<lparr>dispatch_delay = max 0 (t - later), dispatch_done = False\<rparr>
        \<and> (t < later \<longrightarrow>
             scheduled_jobs (snd (schedule_job jid job_config now later s)) jid
               = Some \<lparr>dispatch_delay = 0, dispatch_done = False\<rparr>)
        \<and> (available (db s) \<longrightarrow>
             jobs (db (snd (schedule_job jid job_config now later s)))
               = map (\<lambda>j. if job_id j = jid then j\<lparr>job_next_run := Some t\<rparr> else j)
                     (jobs (db s)))
        \<and> (\<not> available (db s) \<longrightarrow>
             jobs (db (snd (schedule_job jid job_config now later s))) = jobs (db s)))"
proof -
  have a: "running_jobs s jid \<noteq> None \<longrightarrow> schedule_job jid job_config now later s = (False, s)"
    by (simp add: schedule_job_refuses)
  have b: "running_jobs s jid = None \<and> calculate_next_run job_config now = Inl e \<longrightarrow>
        schedule_job jid job_config now later s = (False, s)"
    by (simp add: schedule_job_no_date)
  have c: "running_jobs s jid = None \<and> calculate_next_run job_config now = Inr t \<longrightarrow>
        t = now + of_int (cfg_interval job_config)
        \<and> fst (schedule_job jid job_config now later s) = True
        \<and> scheduled_jobs (snd (schedule_job jid job_config now later s)) jid
            = Some \<lparr>dispatch_delay = max 0 (t - later), dispatch_done = False\<rparr>
        \<and> (t < later \<longrightarrow>
             scheduled_jobs (snd (schedule_job jid job_config now later s)) jid
               = Some \<lparr>dispatch_delay = 0, dispatch_done = False\<rparr>)
        \<and> (available (db s) \<longrightarrow>
             jobs (db (snd (schedule_job jid job_config now later s)))
               = map (\<lambda>j. if job_id j = jid then j\<lparr>job_next_run := Some t\<rparr> else j)
                     (jobs (db s)))
        \<and> (\<not> available (db s) \<longrightarrow>
             jobs (db (snd (schedule_job jid job_config now later s))) = jobs (db s))"
  proof (intro impI, elim conjE)
    assume r: "running_jobs s jid = None" and n: "calculate_next_run job_config now = Inr t"
    have v: "t = now + of_int (cfg_interval job_config)"
      using n by (rule calculate_next_run_value)
    show "t = now + of_int (cfg_interval job_config)
        \<and> fst (schedule_job jid job_config now later s) = True
        \<and> scheduled_jobs (snd (schedule_job jid job_config now later s)) jid
            = Some \<lparr>dispatch_delay = max 0 (t - later), dispatch_done = False\<rparr>
        \<and> (t < later \<longrightarrow>
             scheduled_jobs (snd (schedule_job jid job_config now later s)) jid
               = Some \<lparr>dispatch_delay = 0, dispatch_done = False\<rparr>)
        \<and> (available (db s) \<longrightarrow>
             jobs (db (snd (schedule_job jid job_config now later s)))
               = map (\<lambda>j. if job_id j = jid then j\<lparr>job_next_run := Some t\<rparr> else j)
                     (jobs (db s)))
        \<and> (\<not> available (db s) \<longrightarrow>
             jobs (db (snd (schedule_job jid job_config now later s))) = jobs (db s))"
      unfolding schedule_job_accepts [OF r n]
      using v by (simp add: update_job_next_run_def max_def)
  qed
  from a b c show ?thesis by blast
qed

theorem schedule_job_behaviour_witness:
  "running_jobs suspended_engine 1 \<noteq> None
   \<and> schedule_job 1 example_config 1000 1001 suspended_engine = (False, suspended_engine)
   \<and> running_jobs example_engine 1 = None
   \<and> calculate_next_run long_config 1000 = Inl ''date value out of range''
   \<and> schedule_job 1 long_config 1000 1001 example_engine = (False, example_engine)
   \<and> calculate_next_run example_config 1000 = Inr 1060
   \<and> scheduled_jobs (snd (schedule_job 1 example_config 1000 1001 example_engine)) 1
       = Some \<lparr>dispatch_delay = 59, dispatch_done = False\<rparr>
   \<and> (1060 :: real) < 2000
   \<and> scheduled_jobs (snd (schedule_job 1 example_config 1000 2000 example_engine)) 1
       = Some \<lparr>dispatch_delay = 0, dispatch_done = False\<rparr>
   \<and> available (db example_engine)
   \<and> map job_next_run (jobs (db (snd (schedule_job 1 example_config 1000 1001 example_engine))))
       = [Some 1060]
   \<and> \<not> available (db closed_engine)
   \<and> map job_next_run (jobs (db (snd (schedule_job 1 example_config 1000 1001 closed_engine))))
       = [Some 500]"
proof -
  note a = schedule_job_behaviour [where s = suspended_engine and jid = 1
             and job_config = example_config and now = 1000 and later = 1001
             and t = 1060 and e = "[]"]
  note b = schedule_job_behaviour [where s = example_engine and jid = 1
             and job_config = long_config and now = 1000 and later = 1001
             and t = 0 and e = "''date value out of range''"]
  note c = schedule_job_behaviour [where s = example_engine and jid = 1
             and job_config = example_config and now = 1000 and later = 1001
             and t = 1060 and e = "[]"]
  note d = schedule_job_behaviour [where s = example_engine and jid = 1
             and job_config = example_config and now = 1000 and later = 2000
             and t = 1060 and e = "[]"]
  note f = schedule_job_behaviour [where s = closed_engine and jid = 1
             and job_config = example_config and now = 1000 and later = 1001
             and t = 1060 and e = "[]"]
  have r: "running_jobs suspended_engine 1 \<noteq> None" "running_jobs example_engine 1 = None"
    "running_jobs closed_engine 1 = None"
    by (simp_all add: suspended_engine_def example_engine_def closed_engine_def)
  have av: "available (db example_engine)" "\<not> available (db closed_engine)"
    by (simp_all add: example_engine_def closed_engine_def example_db_def)
  have a1: "schedule_job 1 example_config 1000 1001 suspended_engine = (False, suspended_engine)"
    using a r(1) by blast
  have b1: "schedule_job 1 long_config 1000 1001 example_engine = (False, example_engine)"
    using b r(2) long_interval_has_no_date by blast
  have c1: "scheduled_jobs (snd (schedule_job 1 example_config 1000 1001 example_engine)) 1
       = Some \<lparr>dispatch_delay = max 0 (1060 - 1001), dispatch_done = False\<rparr>"
    using c r(2) example_next_run by blast
  have c2: "jobs (db (snd (schedule_job 1 example_config 1000 1001 example_engine)))
       = map (\<lambda>j. if job_id j = 1 then j\<lparr>job_next_run := Some 1060\<rparr> else j)
             (jobs (db example_engine))"
    using c r(2) example_next_run av(1) by blast
  have lt: "(1060 :: real) < 2000" by simp
  have d1: "scheduled_jobs (snd (schedule_job 1 example_config 1000 2000 example_engine)) 1
       = Some \<lparr>dispatch_delay = 0, dispatch_done = False\<rparr>"
    using d r(2) example_next_run lt by blast
  have f1: "jobs (db (snd (schedule_job 1 example_config 1000 1001 closed_engine)))
       = jobs (db closed_engine)"
    using f r(3) example_next_run av(2) by blast
  have c1': "scheduled_jobs (snd (schedule_job 1 example_config 1000 1001 example_engine)) 1
       = Some \<lparr>dispatch_delay = 59, dispatch_done = False\<rparr>"
    unfolding c1 by simp
  have c2': "map job_next_run (jobs (db (snd (schedule_job 1 example_config 1000 1001
               example_engine)))) = [Some 1060]"
    unfolding c2 by (simp add: example_engine_def example_db_def)
  have f1': "map job_next_run (jobs (db (snd (schedule_job 1 example_config 1000 1001
               closed_engine)))) = [Some 500]"
    unfolding f1 by (simp add: closed_engine_def example_db_def)
  from r(1) a1 r(2) long_interval_has_no_date b1 example_next_run c1' lt d1 av(1) c2' av(2) f1'
  show ?thesis by blast
qed

subsection \<open>The maintenance loop\<close>

lemma reschedule_loop_stops: "reschedule_loop readings js s = s"
  by (cases js) (simp_all add: job_config_of_def)

lemma reschedule_jobs_changes_nothing: "reschedule_jobs now readings s = s"
  by (simp add: reschedule_jobs_def reschedule_loop_stops)

lemma example_due:
  "jobs_to_reschedule 600 (cleanup_completed_tasks example_engine)
     = [\<lparr>job_id = 1, job_enabled = True, job_last_run = None, job_next_run = Some 500\<rparr>]"
  by (simp add: jobs_to_reschedule_def cleanup_completed_tasks_def example_engine_def
                example_db_def)

text \<open>
  Claim C9 says that an iteration of the maintenance loop calls \<open>scheduleJob\<close> on the
  jobs that are enabled, due, and in neither map, so that such a job is rescheduled
  within one tick. The loop of \<open>_reschedule_jobs\<close> reads \<open>job.config\<close>, which a row of
  \<open>Job\<close> does not have: the first selected job raises \<open>AttributeError\<close>, the
  \<open>except\<close> clause of \<open>_reschedule_jobs\<close> swallows it, and \<open>schedule_job\<close> is never
  called. Job 1 is enabled, was due at 500 and is in neither map; the iteration at time
  600 selects it and leaves it without a dispatch unit, its \<open>next_run\<close> still 500.
\<close>

theorem maintenance_iteration_schedules_nothing:
  "map job_id (jobs_to_reschedule 600 (cleanup_completed_tasks example_engine)) = [1]
   \<and> map job_config_of (jobs_to_reschedule 600 (cleanup_completed_tasks example_engine))
       = [Inl (quoted ''Job'' @ '' object has no attribute '' @ quoted ''config'')]
   \<and> scheduled_jobs (fst (scheduler_iteration 600 (\<lambda>jid. (600, 601)) example_engine)) 1 = None
   \<and> jobs (db (fst (scheduler_iteration 600 (\<lambda>jid. (600, 601)) example_engine)))
       = [\<lparr>job_id = 1, job_enabled = True, job_last_run = None, job_next_run = Some 500\<rparr>]
   \<and> snd (scheduler_iteration 600 (\<lambda>jid. (600, 601)) example_engine) = 30"
  by (simp only: example_due)
     (simp add: scheduler_iteration_def reschedule_jobs_changes_nothing
                cleanup_completed_tasks_def job_config_of_def example_engine_def example_db_def)

end
